theory Spec2Isabelle
  imports Main "HOL-Library.Sublist"
begin

section \<open>The build configuration of \<^verbatim>\<open>webpack.config.js\<close>\<close>

text \<open>
  The module reads two environment variables and the output of one child process, builds
  the browser configuration \<^verbatim>\<open>baseConfig\<close>, and exports either that configuration alone
  (development) or the pair of it and the server configuration \<^verbatim>\<open>nodeCfg\<close> (any other
  mode). In the second case it also registers an inline plugin whose callback empties
  the compiler's output directory, keeping \<^verbatim>\<open>manifest.json\<close>.
\<close>

subsection \<open>Paths and the file system seen by the cleanup callback\<close>

text \<open>
  A path is the list of its components below the file-system root. The source calls
  \<^verbatim>\<open>path.resolve\<close> only with an absolute first argument (\<^verbatim>\<open>__dirname\<close> or a path built from
  it) followed by single component names (string literals, or a name returned by
  \<^verbatim>\<open>readdirSync\<close>); on such arguments it appends the components.
\<close>

type_synonym path = "string list"

definition resolve :: "path \<Rightarrow> string list \<Rightarrow> path" where
  "resolve base segs = base @ segs"

text \<open>
  The file system is an association list from paths to the kind of node found there.
  \<^verbatim>\<open>unlinkSync\<close> removes a file and throws on a directory (\<^verbatim>\<open>EISDIR\<close> on Linux) or a
  missing path;
  \<^verbatim>\<open>readdirSync\<close> lists the names directly below a directory and throws on anything else;
  \<^verbatim>\<open>existsSync\<close> never throws.
\<close>

datatype node = File | Dir

type_synonym fs = "(path \<times> node) list"

datatype error = ENOENT | ENOTDIR | EISDIR | ExecFailed string

definition existsSync :: "fs \<Rightarrow> path \<Rightarrow> bool" where
  "existsSync fs p = (map_of fs p \<noteq> None)"

definition is_child :: "path \<Rightarrow> path \<Rightarrow> bool" where
  "is_child d q = (q \<noteq> [] \<and> butlast q = d)"

definition readdirSync :: "fs \<Rightarrow> path \<Rightarrow> error + string list" where
  "readdirSync fs p =
     (case map_of fs p of
        None \<Rightarrow> Inl ENOENT
      | Some File \<Rightarrow> Inl ENOTDIR
      | Some Dir \<Rightarrow> Inr (map last (filter (is_child p) (map fst fs))))"

definition unlinkSync :: "fs \<Rightarrow> path \<Rightarrow> error + fs" where
  "unlinkSync fs p =
     (case map_of fs p of
        None \<Rightarrow> Inl ENOENT
      | Some Dir \<Rightarrow> Inl EISDIR
      | Some File \<Rightarrow> Inr (filter (\<lambda>e. fst e \<noteq> p) fs))"

subsection \<open>The cleanup callback\<close>

text \<open>
  The body of the \<^verbatim>\<open>for\<close> loop of \<^verbatim>\<open>cleanBuild\<close>, over the names that \<^verbatim>\<open>readdirSync\<close>
  returned. The result is the exception that left the loop, if any, and the file system
  at that moment: deletions made before a throw stay made.
\<close>

fun unlink_loop :: "path \<Rightarrow> string list \<Rightarrow> fs \<Rightarrow> error option \<times> fs" where
  "unlink_loop out [] fs = (None, fs)"
| "unlink_loop out (filename # rest) fs =
     (if filename \<noteq> ''manifest.json''
      then (case unlinkSync fs (resolve out [filename]) of
              Inl e \<Rightarrow> (Some e, fs)
            | Inr fs' \<Rightarrow> unlink_loop out rest fs')
      else unlink_loop out rest fs)"

definition cleanBuild :: "fs \<Rightarrow> path \<Rightarrow> error option \<times> fs" where
  "cleanBuild fs out =
     (if existsSync fs out
      then (case readdirSync fs out of
              Inl e \<Rightarrow> (Some e, fs)
            | Inr names \<Rightarrow> unlink_loop out names fs)
      else (None, fs))"

subsection \<open>Environment, revision identifier\<close>

text \<open>
  \<^verbatim>\<open>process.env\<close>: a variable is a string when set and \<^verbatim>\<open>undefined\<close> (here \<open>None\<close>)
  when not.
\<close>

record env =
  NODE_ENV :: "string option"
  PORT :: "string option"

text \<open>
  The text a child process printed is a JavaScript string: a list of UTF-16 code units.
  \<^verbatim>\<open>String.prototype.trim\<close> removes the white space and line terminators of ECMAScript
  from both ends.
\<close>

type_synonym js_string = "nat list"

definition is_js_whitespace :: "nat \<Rightarrow> bool" where
  "is_js_whitespace c =
     (c \<in> set [9, 10, 11, 12, 13, 32, 160, 5760, 8232, 8233, 8239, 8287, 12288, 65279]
      \<or> (8192 \<le> c \<and> c \<le> 8202))"

definition trim :: "js_string \<Rightarrow> js_string" where
  "trim s = rev (dropWhile is_js_whitespace (rev (dropWhile is_js_whitespace s)))"

text \<open>
  \<^verbatim>\<open>let commitHash = null; try { commitHash = execSync(..).toString().trim() } catch (e) {}\<close>.
  The argument is what \<^verbatim>\<open>execSync('git rev-parse HEAD').toString()\<close> did: it threw
  (\<open>Inl\<close>: the command is missing or exited with a failure) or returned the text printed.
\<close>

definition commitHash :: "error + js_string \<Rightarrow> js_string option" where
  "commitHash git = (case git of Inl e \<Rightarrow> None | Inr out \<Rightarrow> Some (trim out))"

definition isDev :: "env \<Rightarrow> bool" where
  "isDev e = (NODE_ENV e = Some ''development'')"

definition src :: "path \<Rightarrow> path" where
  "src dirname = resolve dirname [''src'']"

subsection \<open>Configurations\<close>

text \<open>
  The plugin instances of the source, each with the options it is constructed with.
  \<open>DefinePlugin\<close> holds the two values that the source passes to \<^verbatim>\<open>JSON.stringify\<close>.
  \<open>CleanBuildPlugin\<close> is the inline object whose \<^verbatim>\<open>apply\<close> taps
  \<^verbatim>\<open>compiler.hooks.compile\<close> under the name \<^verbatim>\<open>cleanBuild\<close>; its callback is \<open>cleanBuild\<close>
  on \<^verbatim>\<open>compiler.options.output.path\<close>.
\<close>

datatype plugin =
    ManifestPlugin bool path
  | MiniCSSExtractPlugin string string
  | DefinePlugin "js_string option" "string option"
  | FriendlyErrorsWebpackPlugin
  | PreactRefreshWebpackPlugin
  | CleanBuildPlugin
  | LimitChunkCountPlugin nat

datatype external = NodeExternals

record output_options =
  filename :: string
  chunkFilename :: string
  libraryTarget :: "string option"
  path :: path
  publicPath :: string

record optimization_options =
  minimize :: bool

record devServer_options =
  quiet :: bool
  historyApiFallback :: bool
  allowedHosts :: "string list"
  proxy :: "(string \<times> string) list"

text \<open>
  A configuration object; its key \<^verbatim>\<open>output\<close> is the field \<open>output_cfg\<close>. The keys \<^verbatim>\<open>resolve\<close>, \<^verbatim>\<open>module\<close> and \<^verbatim>\<open>node\<close>, and the
  \<^verbatim>\<open>minimizer\<close> and \<^verbatim>\<open>splitChunks\<close> of \<^verbatim>\<open>optimization\<close>, configure third-party loaders
  and are left out; an absent \<^verbatim>\<open>target\<close> is \<open>None\<close> and absent \<^verbatim>\<open>externals\<close> are \<open>[]\<close>.
\<close>

record config =
  mode :: string
  entry :: path
  output_cfg :: output_options
  plugins :: "plugin list"
  optimization :: optimization_options
  devServer :: devServer_options
  target :: "string option"
  externals :: "external list"

text \<open>
  \<^verbatim>\<open>`http://localhost:${process.env.PORT || 6969}`\<close>: \<^verbatim>\<open>||\<close> yields its right operand when
  the left one is falsy, which for an environment variable is \<^verbatim>\<open>undefined\<close> or the empty
  string; the template prints the number 6969 in decimal.
\<close>

definition proxy_target :: "env \<Rightarrow> string" where
  "proxy_target e =
     ''http://localhost:'' @
       (case PORT e of
          None \<Rightarrow> ''6969''
        | Some p \<Rightarrow> if p = [] then ''6969'' else p)"

text \<open>The object literal assigned to \<^verbatim>\<open>baseConfig\<close>, before any \<^verbatim>\<open>push\<close>.\<close>

definition baseConfig :: "env \<Rightarrow> js_string option \<Rightarrow> path \<Rightarrow> config" where
  "baseConfig e commit dirname =
     \<lparr> mode = (if isDev e then ''development'' else ''production''),
       entry = resolve (src dirname) [''main.jsx''],
       output_cfg =
         \<lparr> filename = (if isDev e then ''[name].js'' else ''[contenthash].js''),
           chunkFilename = (if isDev e then ''[name].chk.js'' else ''[contenthash].js''),
           libraryTarget = None,
           path = resolve dirname [''dist''],
           publicPath = ''/dist/'' \<rparr>,
       plugins =
         [ ManifestPlugin True (resolve dirname [''http'', ''dist'', ''manifest.json'']),
           MiniCSSExtractPlugin
             (if isDev e then ''[name].css'' else ''[contenthash].css'')
             (if isDev e then ''[name].css'' else ''[contenthash].css''),
           DefinePlugin commit (NODE_ENV e) ],
       optimization = \<lparr> minimize = (\<not> isDev e) \<rparr>,
       devServer =
         \<lparr> quiet = True,
           historyApiFallback = True,
           allowedHosts = [''localhost'', ''.ngrok.io''],
           proxy = [(''/'', proxy_target e)] \<rparr>,
       target = None,
       externals = [] \<rparr>"

text \<open>\<^verbatim>\<open>cfg.plugins.push(...)\<close>\<close>

definition push :: "config \<Rightarrow> plugin list \<Rightarrow> config" where
  "push cfg ps = cfg\<lparr>plugins := plugins cfg @ ps\<rparr>"

text \<open>
  The object literal assigned to \<^verbatim>\<open>nodeCfg\<close>: a spread of \<^verbatim>\<open>baseConfig\<close> as it is at that
  point (after the \<^verbatim>\<open>push\<close>) with six keys replaced; \<^verbatim>\<open>slice(1)\<close> drops the first plugin.
\<close>

definition nodeCfg :: "config \<Rightarrow> path \<Rightarrow> config" where
  "nodeCfg base dirname =
     base
       \<lparr> entry := resolve (src dirname) [''components'', ''App.jsx''],
         output_cfg :=
           \<lparr> filename = ''App.js'',
             chunkFilename = ''[name].chk.js'',
             libraryTarget = Some ''commonjs2'',
             path = resolve dirname [''http'', ''dist''],
             publicPath = ''/dist/'' \<rparr>,
         plugins := drop 1 (plugins base) @ [LimitChunkCountPlugin 1],
         optimization := (optimization base)\<lparr>minimize := False\<rparr>,
         target := Some ''node'',
         externals := [NodeExternals] \<rparr>"

text \<open>\<^verbatim>\<open>module.exports\<close> is one configuration or an array of configurations.\<close>

datatype exports = Single config | Multi "config list"

definition module_exports :: "env \<Rightarrow> js_string option \<Rightarrow> path \<Rightarrow> exports" where
  "module_exports e commit dirname =
     (if isDev e
      then Single (push (baseConfig e commit dirname)
                     [FriendlyErrorsWebpackPlugin, PreactRefreshWebpackPlugin])
      else (let base = push (baseConfig e commit dirname) [CleanBuildPlugin]
            in Multi [base, nodeCfg base dirname]))"

text \<open>
  Evaluating the module, given the environment, the outcome of the child process and
  \<^verbatim>\<open>__dirname\<close>: \<open>Inl\<close> for an exception that leaves the module, \<open>Inr\<close> for the value of
  \<^verbatim>\<open>module.exports\<close>. The only call that throws in this model is inside the \<^verbatim>\<open>try\<close>.
\<close>

definition webpack_config :: "env \<Rightarrow> error + js_string \<Rightarrow> path \<Rightarrow> error + exports" where
  "webpack_config e git dirname = Inr (module_exports e (commitHash git) dirname)"

subsection \<open>Reading the exported configurations\<close>

definition configs :: "exports \<Rightarrow> config list" where
  "configs ex = (case ex of Single c \<Rightarrow> [c] | Multi cs \<Rightarrow> cs)"

text \<open>The configuration built for the browser is the first one exported.\<close>

definition browser_config :: "exports \<Rightarrow> config" where
  "browser_config ex = (case ex of Single c \<Rightarrow> c | Multi cs \<Rightarrow> hd cs)"

definition server_configs :: "exports \<Rightarrow> config list" where
  "server_configs ex = filter (\<lambda>c. target c = Some ''node'') (configs ex)"

definition script_patterns :: "config \<Rightarrow> string list" where
  "script_patterns c = [filename (output_cfg c), chunkFilename (output_cfg c)]"

fun style_patterns_of :: "plugin \<Rightarrow> string list" where
  "style_patterns_of (MiniCSSExtractPlugin f c) = [f, c]"
| "style_patterns_of _ = []"

definition style_patterns :: "config \<Rightarrow> string list" where
  "style_patterns c = concat (map style_patterns_of (plugins c))"

fun manifest_paths_of :: "plugin \<Rightarrow> path list" where
  "manifest_paths_of (ManifestPlugin w f) = [f]"
| "manifest_paths_of _ = []"

definition manifest_paths :: "config \<Rightarrow> path list" where
  "manifest_paths c = concat (map manifest_paths_of (plugins c))"

fun chunk_caps_of :: "plugin \<Rightarrow> nat list" where
  "chunk_caps_of (LimitChunkCountPlugin n) = [n]"
| "chunk_caps_of _ = []"

definition chunk_caps :: "config \<Rightarrow> nat list" where
  "chunk_caps c = concat (map chunk_caps_of (plugins c))"

fun revisions_of :: "plugin \<Rightarrow> js_string option list" where
  "revisions_of (DefinePlugin r n) = [r]"
| "revisions_of _ = []"

definition revisions :: "config \<Rightarrow> js_string option list" where
  "revisions c = concat (map revisions_of (plugins c))"

text \<open>
  What one compiler does when its \<^verbatim>\<open>compile\<close> hook fires: the callbacks that the plugins
  of this file tapped there run in the order of the plugin list, each on the compiler's
  own output directory, and the first exception ends the run.
\<close>

fun run_taps :: "plugin list \<Rightarrow> path \<Rightarrow> fs \<Rightarrow> error option \<times> fs" where
  "run_taps [] out fs = (None, fs)"
| "run_taps (p # ps) out fs =
     (if p = CleanBuildPlugin
      then (case cleanBuild fs out of
              (Some e, fs') \<Rightarrow> (Some e, fs')
            | (None, fs') \<Rightarrow> run_taps ps out fs')
      else run_taps ps out fs)"

definition compile_hook :: "config \<Rightarrow> fs \<Rightarrow> error option \<times> fs" where
  "compile_hook c fs = run_taps (plugins c) (path (output_cfg c)) fs"

text \<open>How many cleanup callbacks one build of everything exported runs.\<close>

definition cleanup_taps :: "config \<Rightarrow> nat" where
  "cleanup_taps c = length (filter (\<lambda>p. p = CleanBuildPlugin) (plugins c))"

definition cleanup_runs :: "exports \<Rightarrow> nat" where
  "cleanup_runs ex = sum_list (map cleanup_taps (configs ex))"

text \<open>
  The paths that the loop of \<open>cleanBuild\<close> passes to \<^verbatim>\<open>unlinkSync\<close> when the directory
  lists the given names.
\<close>

definition doomed :: "path \<Rightarrow> string list \<Rightarrow> path set" where
  "doomed out ns = (\<lambda>n. resolve out [n]) ` {n \<in> set ns. n \<noteq> ''manifest.json''}"

subsection \<open>The proxy target in the words of the specification\<close>

text \<open>
  The specification describes the proxy target as \<^verbatim>\<open>http://localhost:<PORT>\<close> with the
  value of \<^verbatim>\<open>PORT\<close> whenever the variable is set and 6969 when it is not. This second
  definition follows those words; it is compared with \<open>proxy_target\<close> below.
\<close>

definition spec_proxy_target :: "env \<Rightarrow> string" where
  "spec_proxy_target e =
     ''http://localhost:'' @ (case PORT e of None \<Rightarrow> ''6969'' | Some p \<Rightarrow> p)"

section \<open>Properties\<close>

subsection \<open>The file system and the cleanup loop\<close>

lemma map_of_remove:
  "map_of (filter (\<lambda>e. fst e \<noteq> p) fs) q = (if q = p then None else map_of fs q)"
  by (induction fs) auto

lemma map_of_remove_set:
  "map_of (filter (\<lambda>e. fst e \<notin> S) fs) q = (if q \<in> S then None else map_of fs q)"
  by (induction fs) auto

lemma keys_remove_set:
  "map fst (filter (\<lambda>e. fst e \<notin> S) fs) = filter (\<lambda>q. q \<notin> S) (map fst fs)"
  by (induction fs) auto

lemma child_inj: "inj_on last {q. is_child d q}"
proof (rule inj_onI)
  fix x y :: path
  assume "x \<in> {q. is_child d q}" "y \<in> {q. is_child d q}" "last x = last y"
  then have "x \<noteq> []" "y \<noteq> []" "butlast x = butlast y" "last x = last y"
    by (simp_all add: is_child_def)
  then show "x = y"
    by (metis append_butlast_last_id)
qed

lemma distinct_names:
  assumes "distinct (map fst fs)"
  shows "distinct (map last (filter (is_child d) (map fst fs)))"
proof -
  have "inj_on last (set (filter (is_child d) (map fst fs)))"
    by (rule inj_on_subset [OF child_inj]) auto
  with assms show ?thesis
    by (simp add: distinct_map)
qed

lemma unlinkSync_File:
  "map_of fs p = Some File \<Longrightarrow> unlinkSync fs p = Inr (filter (\<lambda>e. fst e \<noteq> p) fs)"
  by (simp add: unlinkSync_def)

lemma unlink_loop_files:
  assumes "distinct ns"
    and "\<forall>n \<in> set ns. n \<noteq> ''manifest.json'' \<longrightarrow> map_of fs (resolve out [n]) = Some File"
  shows "unlink_loop out ns fs = (None, filter (\<lambda>e. fst e \<notin> doomed out ns) fs)"
  using assms
proof (induction ns arbitrary: fs)
  case Nil
  then show ?case by (simp add: doomed_def)
next
  case (Cons n ns)
  show ?case
  proof (cases "n = ''manifest.json''")
    case True
    have "doomed out (n # ns) = doomed out ns"
      using True by (auto simp: doomed_def)
    with Cons True show ?thesis by simp
  next
    case False
    let ?fs1 = "filter (\<lambda>e. fst e \<noteq> resolve out [n]) fs"
    have u: "unlinkSync fs (resolve out [n]) = Inr ?fs1"
      using Cons.prems False by (simp add: unlinkSync_File)
    have d: "distinct ns" and nin: "n \<notin> set ns"
      using Cons.prems by simp_all
    have files: "\<forall>m \<in> set ns. m \<noteq> ''manifest.json'' \<longrightarrow> map_of ?fs1 (resolve out [m]) = Some File"
      using Cons.prems nin by (auto simp: map_of_remove resolve_def)
    have ih: "unlink_loop out ns ?fs1 = (None, filter (\<lambda>e. fst e \<notin> doomed out ns) ?fs1)"
      by (rule Cons.IH [OF d files])
    have dm: "doomed out (n # ns) = insert (resolve out [n]) (doomed out ns)"
      using False by (auto simp: doomed_def)
    have "filter (\<lambda>e. fst e \<notin> doomed out ns) ?fs1 = filter (\<lambda>e. fst e \<notin> doomed out (n # ns)) fs"
      by (auto simp: dm intro: filter_cong)
    with ih u False show ?thesis by simp
  qed
qed

lemma readdirSync_Inr:
  "readdirSync fs d = Inr names \<Longrightarrow>
     map_of fs d = Some Dir \<and> names = map last (filter (is_child d) (map fst fs))"
  by (auto simp: readdirSync_def split: option.splits node.splits)

lemma child_path: "is_child d q \<Longrightarrow> q = resolve d [last q]"
  by (metis is_child_def resolve_def append_butlast_last_id)

lemma doomed_child:
  assumes "is_child d q" and "last q \<in> set ns"
  shows "q \<notin> doomed d ns \<longleftrightarrow> last q = ''manifest.json''"
proof -
  have q: "q = resolve d [last q]"
    by (rule child_path [OF assms(1)])
  show ?thesis
  proof
    assume "q \<notin> doomed d ns"
    then show "last q = ''manifest.json''"
      using q assms(2) by (auto simp: doomed_def)
  next
    assume m: "last q = ''manifest.json''"
    show "q \<notin> doomed d ns"
    proof
      assume "q \<in> doomed d ns"
      then obtain n where "n \<noteq> ''manifest.json''" "q = resolve d [n]"
        by (auto simp: doomed_def)
      with m show False by (simp add: resolve_def)
    qed
  qed
qed

lemma not_doomed_self: "d \<notin> doomed d ns"
  by (auto simp: doomed_def resolve_def)

lemma readdir_after:
  assumes ls: "readdirSync fs d = Inr names"
  shows "readdirSync (filter (\<lambda>e. fst e \<notin> doomed d names) fs) d
           = Inr (filter (\<lambda>n. n = ''manifest.json'') names)"
proof -
  let ?keys = "map fst fs"
  from readdirSync_Inr [OF ls]
  have dir: "map_of fs d = Some Dir"
    and names: "names = map last (filter (is_child d) ?keys)"
    by simp_all
  have still: "map_of (filter (\<lambda>e. fst e \<notin> doomed d names) fs) d = Some Dir"
    by (simp add: map_of_remove_set not_doomed_self dir)
  have "filter (is_child d) (filter (\<lambda>q. q \<notin> doomed d names) ?keys)
          = filter (\<lambda>q. last q = ''manifest.json'') (filter (is_child d) ?keys)"
  proof -
    have eq: "(q \<notin> doomed d names \<and> is_child d q) = (is_child d q \<and> last q = ''manifest.json'')"
      if "q \<in> set ?keys" for q
    proof (cases "is_child d q")
      case False
      then show ?thesis by simp
    next
      case True
      with that have "last q \<in> set names"
        unfolding names by (simp add: image_iff) blast
      with True have "(q \<notin> doomed d names) = (last q = ''manifest.json'')"
        by (rule doomed_child)
      with True show ?thesis by simp
    qed
    show ?thesis
      unfolding filter_filter by (rule filter_cong [OF refl]) (rule eq)
  qed
  then have "map last (filter (is_child d) (filter (\<lambda>q. q \<notin> doomed d names) ?keys))
          = filter (\<lambda>n. n = ''manifest.json'') names"
    unfolding names by (simp add: filter_map comp_def)
  with still show ?thesis
    by (simp add: readdirSync_def keys_remove_set)
qed

lemma cleanBuild_files:
  assumes wf: "distinct (map fst fs)"
    and ls: "readdirSync fs d = Inr names"
    and files: "\<forall>n \<in> set names. n \<noteq> ''manifest.json'' \<longrightarrow> map_of fs (resolve d [n]) = Some File"
  shows "cleanBuild fs d = (None, filter (\<lambda>e. fst e \<notin> doomed d names) fs)"
proof -
  from readdirSync_Inr [OF ls]
  have dir: "map_of fs d = Some Dir"
    and names: "names = map last (filter (is_child d) (map fst fs))"
    by simp_all
  have "distinct names"
    unfolding names by (rule distinct_names [OF wf])
  then have "unlink_loop d names fs = (None, filter (\<lambda>e. fst e \<notin> doomed d names) fs)"
    using files by (rule unlink_loop_files)
  then show ?thesis
    using dir ls by (simp add: cleanBuild_def existsSync_def)
qed

lemma filter_only:
  "distinct xs \<Longrightarrow> x \<in> set xs \<Longrightarrow> filter (\<lambda>y. y = x) xs = [x]"
  by (induction xs) (auto simp: filter_empty_conv)

lemma unlink_loop_keeps:
  assumes "\<not> is_child d q \<or> last q = ''manifest.json''"
  shows "map_of (snd (unlink_loop d ns fs)) q = map_of fs q"
proof (induction ns arbitrary: fs)
  case Nil
  show ?case by simp
next
  case (Cons n ns)
  have neq: "n \<noteq> ''manifest.json'' \<Longrightarrow> q \<noteq> resolve d [n]"
    using assms by (auto simp: is_child_def resolve_def)
  show ?case
    using Cons.IH neq
    by (auto simp: unlinkSync_def map_of_remove split: option.splits node.splits)
qed

lemma cleanBuild_keeps:
  assumes "\<not> is_child d q \<or> last q = ''manifest.json''"
  shows "map_of (snd (cleanBuild fs d)) q = map_of fs q"
  using unlink_loop_keeps [OF assms]
  by (simp add: cleanBuild_def split: sum.splits)

lemma run_taps_keeps:
  assumes "\<not> is_child d q \<or> last q = ''manifest.json''"
  shows "map_of (snd (run_taps ps d fs)) q = map_of fs q"
proof (induction ps arbitrary: fs)
  case Nil
  show ?case by simp
next
  case (Cons p ps)
  show ?case
  proof (cases "p = CleanBuildPlugin")
    case False
    with Cons.IH show ?thesis by simp
  next
    case True
    obtain r fs' where cb: "cleanBuild fs d = (r, fs')"
      by (cases "cleanBuild fs d")
    have k: "map_of fs' q = map_of fs q"
      using cleanBuild_keeps [OF assms, of fs] cb by simp
    show ?thesis
      using True cb k Cons.IH [of fs'] by (cases r) simp_all
  qed
qed

subsection \<open>The exported configurations\<close>

lemmas config_defs =
  module_exports_def baseConfig_def push_def nodeCfg_def configs_def browser_config_def
  server_configs_def

lemma exports_development:
  "isDev e \<Longrightarrow> module_exports e commit dirname =
     Single (push (baseConfig e commit dirname)
               [FriendlyErrorsWebpackPlugin, PreactRefreshWebpackPlugin])"
  by (simp add: module_exports_def)

lemma exports_production:
  "\<not> isDev e \<Longrightarrow> module_exports e commit dirname =
     Multi [push (baseConfig e commit dirname) [CleanBuildPlugin],
            nodeCfg (push (baseConfig e commit dirname) [CleanBuildPlugin]) dirname]"
  by (simp add: module_exports_def Let_def)

lemma compile_hook_production:
  assumes "\<not> isDev e" and "c \<in> set (configs (module_exports e commit dirname))"
  shows "compile_hook c fs = cleanBuild fs (path (output_cfg c))"
  using assms
  by (auto simp: exports_production configs_def compile_hook_def baseConfig_def push_def
      nodeCfg_def split: prod.splits option.splits)

lemma compile_hook_development:
  assumes "isDev e" and "c \<in> set (configs (module_exports e commit dirname))"
  shows "compile_hook c fs = (None, fs)"
  using assms
  by (auto simp: exports_development configs_def compile_hook_def baseConfig_def push_def)

subsection \<open>Cleanup\<close>

text \<open>
  Claim C10. When the output directory does not exist, the cleanup callback deletes
  nothing and returns without an exception, leaving the file system as it was; so does
  the \<^verbatim>\<open>compile\<close> hook of each configuration exported outside development whose output
  directory is missing.
\<close>

theorem cleanup_missing_directory:
  assumes "\<not> existsSync fs d"
  shows "cleanBuild fs d = (None, fs) \<and>
         (\<not> isDev e \<longrightarrow> c \<in> set (configs (module_exports e commit dirname)) \<longrightarrow>
            path (output_cfg c) = d \<longrightarrow> compile_hook c fs = (None, fs))"
  using assms by (auto simp: compile_hook_production cleanBuild_def)

theorem cleanup_missing_directory_witness:
  "\<not> existsSync [([''app''], Dir)] [''app'', ''http'', ''dist''] \<and>
   cleanBuild [([''app''], Dir)] [''app'', ''http'', ''dist''] = (None, [([''app''], Dir)]) \<and>
   compile_hook (nodeCfg (push (baseConfig \<lparr>NODE_ENV = None, PORT = None\<rparr> None [''app''])
                            [CleanBuildPlugin]) [''app''])
     [([''app''], Dir)] = (None, [([''app''], Dir)])"
proof -
  let ?e = "\<lparr>NODE_ENV = None, PORT = None\<rparr>"
  let ?fs = "[([''app''], Dir)]"
  let ?c = "nodeCfg (push (baseConfig ?e None [''app'']) [CleanBuildPlugin]) [''app'']"
  have missing: "\<not> existsSync ?fs [''app'', ''http'', ''dist'']"
    by (simp add: existsSync_def)
  have prod: "\<not> isDev ?e"
    by (simp add: isDev_def)
  have mem: "?c \<in> set (configs (module_exports ?e None [''app'']))"
    by (simp add: exports_production [OF prod] configs_def)
  have out: "path (output_cfg ?c) = [''app'', ''http'', ''dist'']"
    by (simp add: nodeCfg_def resolve_def)
  from cleanup_missing_directory [OF missing, of ?e ?c None "[''app'']"] prod mem out missing
  show ?thesis by simp
qed

text \<open>
  Claim C1. Outside development, when the output directory of an exported configuration
  lists exactly \<^verbatim>\<open>manifest.json\<close>, \<^verbatim>\<open>old.js\<close> and \<^verbatim>\<open>old.css\<close>, the last two being files,
  the \<^verbatim>\<open>compile\<close> hook returns without an exception, the directory then lists exactly
  \<^verbatim>\<open>manifest.json\<close>, the two other entries are gone and no other path has changed.
\<close>

theorem cleanup_leaves_manifest:
  assumes prod: "\<not> isDev e"
    and c: "c \<in> set (configs (module_exports e commit dirname))"
    and wf: "distinct (map fst fs)"
    and ls: "readdirSync fs (path (output_cfg c)) = Inr names"
    and names: "set names = {''manifest.json'', ''old.js'', ''old.css''}"
    and js: "map_of fs (resolve (path (output_cfg c)) [''old.js'']) = Some File"
    and css: "map_of fs (resolve (path (output_cfg c)) [''old.css'']) = Some File"
  shows "\<exists>fs'. compile_hook c fs = (None, fs') \<and>
           readdirSync fs' (path (output_cfg c)) = Inr [''manifest.json''] \<and>
           \<not> existsSync fs' (resolve (path (output_cfg c)) [''old.js'']) \<and>
           \<not> existsSync fs' (resolve (path (output_cfg c)) [''old.css'']) \<and>
           (\<forall>q. q \<noteq> resolve (path (output_cfg c)) [''old.js''] \<and>
                q \<noteq> resolve (path (output_cfg c)) [''old.css''] \<longrightarrow>
                map_of fs' q = map_of fs q)"
proof -
  let ?d = "path (output_cfg c)"
  let ?fs' = "filter (\<lambda>e. fst e \<notin> doomed ?d names) fs"
  have dm: "doomed ?d names = {resolve ?d [''old.js''], resolve ?d [''old.css'']}"
    unfolding doomed_def names by auto
  have files: "\<forall>n \<in> set names. n \<noteq> ''manifest.json'' \<longrightarrow> map_of fs (resolve ?d [n]) = Some File"
    using js css by (simp add: names)
  have run: "compile_hook c fs = (None, ?fs')"
    using cleanBuild_files [OF wf ls files] by (simp add: compile_hook_production [OF prod c])
  have "distinct names"
    using readdirSync_Inr [OF ls] distinct_names [OF wf, of ?d] by simp
  then have only: "filter (\<lambda>n. n = ''manifest.json'') names = [''manifest.json'']"
    by (rule filter_only) (simp add: names)
  have listing: "readdirSync ?fs' ?d = Inr [''manifest.json'']"
    using readdir_after [OF ls] by (simp add: only)
  have look: "map_of ?fs' q = (if q \<in> doomed ?d names then None else map_of fs q)" for q
    by (rule map_of_remove_set)
  have gone: "\<not> existsSync ?fs' (resolve ?d [''old.js''])" "\<not> existsSync ?fs' (resolve ?d [''old.css''])"
    unfolding existsSync_def look by (simp_all add: dm)
  have rest: "\<forall>q. q \<noteq> resolve ?d [''old.js''] \<and> q \<noteq> resolve ?d [''old.css''] \<longrightarrow>
                map_of ?fs' q = map_of fs q"
    unfolding look by (simp add: dm)
  from run listing gone rest show ?thesis by blast
qed

theorem cleanup_leaves_manifest_witness:
  "compile_hook (push (baseConfig \<lparr>NODE_ENV = Some ''production'', PORT = None\<rparr> None [''app''])
                   [CleanBuildPlugin])
     [([''app''], Dir), ([''app'', ''dist''], Dir),
      ([''app'', ''dist'', ''old.js''], File),
      ([''app'', ''dist'', ''manifest.json''], File),
      ([''app'', ''dist'', ''old.css''], File)]
   = (None, [([''app''], Dir), ([''app'', ''dist''], Dir),
             ([''app'', ''dist'', ''manifest.json''], File)])"
proof -
  let ?e = "\<lparr>NODE_ENV = Some ''production'', PORT = None\<rparr>"
  let ?c = "push (baseConfig ?e None [''app'']) [CleanBuildPlugin]"
  let ?fs = "[([''app''], Dir), ([''app'', ''dist''], Dir),
      ([''app'', ''dist'', ''old.js''], File),
      ([''app'', ''dist'', ''manifest.json''], File),
      ([''app'', ''dist'', ''old.css''], File)]"
  have prod: "\<not> isDev ?e"
    by (simp add: isDev_def)
  have mem: "?c \<in> set (configs (module_exports ?e None [''app'']))"
    by (simp add: exports_production [OF prod] configs_def)
  have out: "path (output_cfg ?c) = [''app'', ''dist'']"
    by (simp add: push_def baseConfig_def resolve_def)
  have wf: "distinct (map fst ?fs)"
    by simp
  have ls: "readdirSync ?fs (path (output_cfg ?c)) = Inr [''old.js'', ''manifest.json'', ''old.css'']"
    unfolding out by (simp add: readdirSync_def is_child_def)
  have names: "set [''old.js'', ''manifest.json'', ''old.css''] = {''manifest.json'', ''old.js'', ''old.css''}"
    by auto
  have js: "map_of ?fs (resolve (path (output_cfg ?c)) [''old.js'']) = Some File"
    unfolding out by (simp add: resolve_def)
  have css: "map_of ?fs (resolve (path (output_cfg ?c)) [''old.css'']) = Some File"
    unfolding out by (simp add: resolve_def)
  from cleanup_leaves_manifest [OF prod mem wf ls names js css]
  obtain fs' where "compile_hook ?c ?fs = (None, fs')"
    by blast
  moreover have "compile_hook ?c ?fs = (None, [([''app''], Dir), ([''app'', ''dist''], Dir),
             ([''app'', ''dist'', ''manifest.json''], File)])"
    by (simp add: compile_hook_def push_def baseConfig_def resolve_def cleanBuild_def
        existsSync_def readdirSync_def is_child_def unlinkSync_def)
  ultimately show ?thesis by simp
qed

subsection \<open>What is exported\<close>

text \<open>
  Claim C2. In development the module exports the browser configuration alone; in every
  other mode it exports exactly two configurations, the browser one followed by one whose
  target is \<^verbatim>\<open>node\<close>. So a configuration with target \<^verbatim>\<open>node\<close> is exported if and only if
  the mode is not development, and the browser configuration never has that target.
\<close>

theorem server_config_iff_production:
  "length (configs (module_exports e commit dirname)) = (if isDev e then 1 else 2) \<and>
   length (server_configs (module_exports e commit dirname)) = (if isDev e then 0 else 1) \<and>
   (server_configs (module_exports e commit dirname) \<noteq> []) = (\<not> isDev e) \<and>
   target (browser_config (module_exports e commit dirname)) = None \<and>
   (isDev e \<longrightarrow>
      module_exports e commit dirname = Single (browser_config (module_exports e commit dirname))) \<and>
   (\<not> isDev e \<longrightarrow>
      (\<exists>n. module_exports e commit dirname
              = Multi [browser_config (module_exports e commit dirname), n] \<and>
           target n = Some ''node''))"
  by (simp add: config_defs Let_def)

theorem server_config_iff_production_witness:
  "module_exports \<lparr>NODE_ENV = Some ''development'', PORT = None\<rparr> None [''app'']
     = Single (browser_config
                 (module_exports \<lparr>NODE_ENV = Some ''development'', PORT = None\<rparr> None [''app''])) \<and>
   length (configs (module_exports \<lparr>NODE_ENV = None, PORT = None\<rparr> None [''app''])) = 2 \<and>
   length (server_configs (module_exports \<lparr>NODE_ENV = None, PORT = None\<rparr> None [''app''])) = 1"
  using server_config_iff_production
          [of "\<lparr>NODE_ENV = Some ''development'', PORT = None\<rparr>" None "[''app'']"]
        server_config_iff_production [of "\<lparr>NODE_ENV = None, PORT = None\<rparr>" None "[''app'']"]
  by (simp add: isDev_def)

text \<open>
  Claim C6. Outside development exactly one server configuration is exported. Its entry
  is the single path \<^verbatim>\<open>src/components/App.jsx\<close>, its only chunk-count limit is 1, its
  externals are the node externals, its \<^verbatim>\<open>minimize\<close> flag is false, and its output
  directory \<^verbatim>\<open>http/dist\<close> differs from the browser configuration's \<^verbatim>\<open>dist\<close>.
\<close>

theorem server_config_shape:
  assumes "\<not> isDev e"
  shows "\<exists>n. server_configs (module_exports e commit dirname) = [n] \<and>
           entry n = resolve dirname [''src'', ''components'', ''App.jsx''] \<and>
           chunk_caps n = [1] \<and>
           externals n = [NodeExternals] \<and>
           \<not> minimize (optimization n) \<and>
           path (output_cfg n) = resolve dirname [''http'', ''dist''] \<and>
           path (output_cfg (browser_config (module_exports e commit dirname)))
             = resolve dirname [''dist''] \<and>
           path (output_cfg n)
             \<noteq> path (output_cfg (browser_config (module_exports e commit dirname)))"
  using assms
  by (simp add: config_defs Let_def chunk_caps_def src_def resolve_def)

theorem server_config_shape_witness:
  "\<exists>n. server_configs (module_exports \<lparr>NODE_ENV = Some ''production'', PORT = None\<rparr> None [''app''])
          = [n] \<and>
        entry n = [''app'', ''src'', ''components'', ''App.jsx''] \<and>
        chunk_caps n = [1] \<and> \<not> minimize (optimization n) \<and>
        path (output_cfg n) = [''app'', ''http'', ''dist'']"
proof -
  have prod: "\<not> isDev \<lparr>NODE_ENV = Some ''production'', PORT = None\<rparr>"
    by (simp add: isDev_def)
  from server_config_shape [OF prod, of None "[''app'']"]
  show ?thesis by (auto simp: resolve_def)
qed

subsection \<open>Mode, file names and proxy\<close>

lemmas pattern_defs = script_patterns_def style_patterns_def

text \<open>
  The server configuration replaces \<^verbatim>\<open>output\<close> by fixed names; the claims on file name
  patterns below are about the browser configuration, whose \<^verbatim>\<open>output\<close> and style plugin
  the specification describes.
\<close>

lemma server_patterns:
  "\<not> isDev e \<Longrightarrow>
     map script_patterns (server_configs (module_exports e commit dirname))
       = [[''App.js'', ''[name].chk.js'']]"
  by (simp add: config_defs pattern_defs Let_def)

text \<open>
  Claim C3. In development the script and style file name patterns of the browser
  configuration are \<^verbatim>\<open>[name].js\<close>, \<^verbatim>\<open>[name].chk.js\<close> and \<^verbatim>\<open>[name].css\<close>: each contains the
  placeholder \<^verbatim>\<open>[name]\<close> and none contains \<^verbatim>\<open>hash\<close>. In every other mode they are
  \<^verbatim>\<open>[contenthash].js\<close> and \<^verbatim>\<open>[contenthash].css\<close>. Two resolutions in development give the
  same patterns, whatever the port, the revision and the directory.
\<close>

theorem filename_patterns:
  "(isDev e \<longrightarrow>
      script_patterns (browser_config (module_exports e commit dirname))
        = [''[name].js'', ''[name].chk.js''] \<and>
      style_patterns (browser_config (module_exports e commit dirname))
        = [''[name].css'', ''[name].css''] \<and>
      (\<forall>p \<in> set (script_patterns (browser_config (module_exports e commit dirname)) @
                  style_patterns (browser_config (module_exports e commit dirname))).
         sublist ''[name]'' p \<and> \<not> sublist ''hash'' p)) \<and>
   (\<not> isDev e \<longrightarrow>
      script_patterns (browser_config (module_exports e commit dirname))
        = [''[contenthash].js'', ''[contenthash].js''] \<and>
      style_patterns (browser_config (module_exports e commit dirname))
        = [''[contenthash].css'', ''[contenthash].css''] \<and>
      (\<forall>p \<in> set (script_patterns (browser_config (module_exports e commit dirname)) @
                  style_patterns (browser_config (module_exports e commit dirname))).
         sublist ''[contenthash]'' p)) \<and>
   (isDev e \<longrightarrow> isDev e' \<longrightarrow>
      script_patterns (browser_config (module_exports e' commit' dirname'))
        = script_patterns (browser_config (module_exports e commit dirname)) \<and>
      style_patterns (browser_config (module_exports e' commit' dirname'))
        = style_patterns (browser_config (module_exports e commit dirname)))"
  by (simp add: config_defs pattern_defs Let_def sublist_Cons_right)

theorem filename_patterns_witness:
  "script_patterns (browser_config
      (module_exports \<lparr>NODE_ENV = Some ''development'', PORT = None\<rparr> None [''app'']))
     = [''[name].js'', ''[name].chk.js''] \<and>
   style_patterns (browser_config
      (module_exports \<lparr>NODE_ENV = Some ''development'', PORT = Some ''8080''\<rparr> (Some [97]) [''srv'']))
     = [''[name].css'', ''[name].css''] \<and>
   script_patterns (browser_config
      (module_exports \<lparr>NODE_ENV = Some ''production'', PORT = None\<rparr> None [''app'']))
     = [''[contenthash].js'', ''[contenthash].js'']"
proof -
  let ?d = "\<lparr>NODE_ENV = Some ''development'', PORT = None\<rparr>"
  let ?d' = "\<lparr>NODE_ENV = Some ''development'', PORT = Some ''8080''\<rparr>"
  let ?p = "\<lparr>NODE_ENV = Some ''production'', PORT = None\<rparr>"
  have dev: "isDev ?d" "isDev ?d'" and prod: "\<not> isDev ?p"
    by (simp_all add: isDev_def)
  from filename_patterns [of ?d None "[''app'']" ?d' "Some [97]" "[''srv'']"]
       filename_patterns [of ?p None "[''app'']" ?p None "[''app'']"] dev prod
  show ?thesis by simp
qed

text \<open>
  Claim C7. The value \<^verbatim>\<open>development\<close> of \<^verbatim>\<open>NODE_ENV\<close> selects development: mode string
  \<^verbatim>\<open>development\<close>, no minimizing, name-based patterns. Every other value, and an unset
  variable, selects production: every exported configuration has the mode string
  \<^verbatim>\<open>production\<close>, and the browser configuration minimizes and has content-hash patterns.
\<close>

theorem mode_selection:
  "(NODE_ENV e = Some ''development'' \<longrightarrow>
      isDev e \<and>
      mode (browser_config (module_exports e commit dirname)) = ''development'' \<and>
      \<not> minimize (optimization (browser_config (module_exports e commit dirname))) \<and>
      script_patterns (browser_config (module_exports e commit dirname))
        = [''[name].js'', ''[name].chk.js''] \<and>
      style_patterns (browser_config (module_exports e commit dirname))
        = [''[name].css'', ''[name].css'']) \<and>
   (NODE_ENV e \<noteq> Some ''development'' \<longrightarrow>
      \<not> isDev e \<and>
      mode (browser_config (module_exports e commit dirname)) = ''production'' \<and>
      (\<forall>c \<in> set (configs (module_exports e commit dirname)). mode c = ''production'') \<and>
      minimize (optimization (browser_config (module_exports e commit dirname))) \<and>
      script_patterns (browser_config (module_exports e commit dirname))
        = [''[contenthash].js'', ''[contenthash].js''] \<and>
      style_patterns (browser_config (module_exports e commit dirname))
        = [''[contenthash].css'', ''[contenthash].css''])"
  by (simp add: isDev_def config_defs pattern_defs Let_def)

theorem mode_selection_witness:
  "mode (browser_config (module_exports \<lparr>NODE_ENV = Some ''development'', PORT = None\<rparr> None [''app'']))
     = ''development'' \<and>
   mode (browser_config (module_exports \<lparr>NODE_ENV = None, PORT = None\<rparr> None [''app'']))
     = ''production'' \<and>
   minimize (optimization
     (browser_config (module_exports \<lparr>NODE_ENV = Some ''Development'', PORT = None\<rparr> None [''app''])))"
  using mode_selection [of "\<lparr>NODE_ENV = Some ''development'', PORT = None\<rparr>" None "[''app'']"]
        mode_selection [of "\<lparr>NODE_ENV = None, PORT = None\<rparr>" None "[''app'']"]
        mode_selection [of "\<lparr>NODE_ENV = Some ''Development'', PORT = None\<rparr>" None "[''app'']"]
  by simp

text \<open>
  Claim C8, as stated, fails when \<^verbatim>\<open>PORT\<close> is set to the empty string: the variable is
  set, the specification's target is \<^verbatim>\<open>http://localhost:\<close>, and the code yields
  \<^verbatim>\<open>http://localhost:6969\<close>, since \<^verbatim>\<open>||\<close> treats the empty string like an unset variable.
\<close>

theorem proxy_target_empty_port:
  "proxy (devServer (browser_config
      (module_exports \<lparr>NODE_ENV = Some ''development'', PORT = Some ''''\<rparr> None [''app''])))
     = [(''/'', ''http://localhost:6969'')] \<and>
   spec_proxy_target \<lparr>NODE_ENV = Some ''development'', PORT = Some ''''\<rparr> = ''http://localhost:'' \<and>
   proxy_target \<lparr>NODE_ENV = Some ''development'', PORT = Some ''''\<rparr>
     \<noteq> spec_proxy_target \<lparr>NODE_ENV = Some ''development'', PORT = Some ''''\<rparr>"
  by (simp add: config_defs isDev_def proxy_target_def spec_proxy_target_def)

text \<open>
  Claim C8, amended. The proxy of the browser configuration maps \<^verbatim>\<open>/\<close> to
  \<^verbatim>\<open>http://localhost:<PORT>\<close> when \<^verbatim>\<open>PORT\<close> is set to a non-empty string, and to
  \<^verbatim>\<open>http://localhost:6969\<close> when \<^verbatim>\<open>PORT\<close> is unset or empty. The code and the
  specification's wording agree on every environment but the one with an empty \<^verbatim>\<open>PORT\<close>.
\<close>

theorem proxy_target_port:
  "proxy (devServer (browser_config (module_exports e commit dirname)))
     = [(''/'', proxy_target e)] \<and>
   (\<forall>p. PORT e = Some p \<and> p \<noteq> [] \<longrightarrow> proxy_target e = ''http://localhost:'' @ p) \<and>
   (PORT e = None \<or> PORT e = Some [] \<longrightarrow> proxy_target e = ''http://localhost:6969'') \<and>
   (PORT e \<noteq> Some [] \<longrightarrow> proxy_target e = spec_proxy_target e)"
  by (auto simp: config_defs Let_def proxy_target_def spec_proxy_target_def split: option.splits)

theorem proxy_target_port_witness:
  "proxy (devServer (browser_config
      (module_exports \<lparr>NODE_ENV = Some ''development'', PORT = Some ''8080''\<rparr> None [''app''])))
     = [(''/'', ''http://localhost:8080'')] \<and>
   proxy_target \<lparr>NODE_ENV = Some ''development'', PORT = None\<rparr> = ''http://localhost:6969''"
  using proxy_target_port [of "\<lparr>NODE_ENV = Some ''development'', PORT = Some ''8080''\<rparr>" None "[''app'']"]
        proxy_target_port [of "\<lparr>NODE_ENV = Some ''development'', PORT = None\<rparr>" None "[''app'']"]
  by simp

subsection \<open>How often the cleanup runs, and the manifest\<close>

lemma cleanup_taps_production:
  assumes "\<not> isDev e" and "c \<in> set (configs (module_exports e commit dirname))"
  shows "cleanup_taps c = 1"
  using assms
  by (auto simp: exports_production configs_def cleanup_taps_def baseConfig_def push_def
      nodeCfg_def)

lemma cleanup_taps_development:
  assumes "isDev e" and "c \<in> set (configs (module_exports e commit dirname))"
  shows "cleanup_taps c = 0"
  using assms
  by (auto simp: exports_development configs_def cleanup_taps_def baseConfig_def push_def)

text \<open>
  Claim C5, as stated, fails outside development: the cleanup plugin is pushed onto
  \<^verbatim>\<open>baseConfig.plugins\<close> before \<^verbatim>\<open>nodeCfg\<close> copies that list without its first element,
  so both exported configurations carry it, and one build of both runs the callback
  twice, once on \<^verbatim>\<open>dist\<close> and once on \<^verbatim>\<open>http/dist\<close>.
\<close>

theorem cleanup_runs_twice:
  "cleanup_runs (module_exports \<lparr>NODE_ENV = Some ''production'', PORT = None\<rparr> None [''app'']) \<noteq> 1 \<and>
   map (\<lambda>c. (path (output_cfg c), cleanup_taps c))
     (configs (module_exports \<lparr>NODE_ENV = Some ''production'', PORT = None\<rparr> None [''app'']))
     = [([''app'', ''dist''], 1), ([''app'', ''http'', ''dist''], 1)]"
  by (simp add: cleanup_runs_def cleanup_taps_def config_defs isDev_def Let_def resolve_def)

text \<open>
  Claim C5, amended. In development no exported configuration carries the cleanup plugin
  and the \<^verbatim>\<open>compile\<close> hook changes nothing. In every other mode each of the two exported
  configurations carries it exactly once, the \<^verbatim>\<open>compile\<close> hook of each compiler is the
  cleanup of that compiler's own output directory, and the two directories differ: the
  cleanup runs once per configuration, twice per build of both.
\<close>

theorem cleanup_once_per_config:
  "cleanup_runs (module_exports e commit dirname) = (if isDev e then 0 else 2) \<and>
   (isDev e \<longrightarrow>
      (\<forall>c \<in> set (configs (module_exports e commit dirname)).
         cleanup_taps c = 0 \<and> (\<forall>fs. compile_hook c fs = (None, fs)))) \<and>
   (\<not> isDev e \<longrightarrow>
      (\<forall>c \<in> set (configs (module_exports e commit dirname)).
         cleanup_taps c = 1 \<and>
         (\<forall>fs. compile_hook c fs = cleanBuild fs (path (output_cfg c)))) \<and>
      map (\<lambda>c. path (output_cfg c)) (configs (module_exports e commit dirname))
        = [resolve dirname [''dist''], resolve dirname [''http'', ''dist'']] \<and>
      resolve dirname [''dist''] \<noteq> resolve dirname [''http'', ''dist''])"
proof -
  have runs: "cleanup_runs (module_exports e commit dirname) = (if isDev e then 0 else 2)"
    by (simp add: cleanup_runs_def cleanup_taps_def config_defs Let_def)
  have dirs: "\<not> isDev e \<Longrightarrow>
      map (\<lambda>c. path (output_cfg c)) (configs (module_exports e commit dirname))
        = [resolve dirname [''dist''], resolve dirname [''http'', ''dist'']]"
    by (simp add: config_defs Let_def)
  have apart: "resolve dirname [''dist''] \<noteq> resolve dirname [''http'', ''dist'']"
    by (simp add: resolve_def)
  from runs dirs apart show ?thesis
    by (simp add: cleanup_taps_production cleanup_taps_development
        compile_hook_production compile_hook_development)
qed

theorem cleanup_once_per_config_witness:
  "cleanup_runs (module_exports \<lparr>NODE_ENV = Some ''development'', PORT = None\<rparr> None [''app'']) = 0 \<and>
   cleanup_runs (module_exports \<lparr>NODE_ENV = None, PORT = None\<rparr> None [''app'']) = 2 \<and>
   map (\<lambda>c. path (output_cfg c)) (configs (module_exports \<lparr>NODE_ENV = None, PORT = None\<rparr> None [''app'']))
     = [[''app'', ''dist''], [''app'', ''http'', ''dist'']]"
proof -
  have dev: "isDev \<lparr>NODE_ENV = Some ''development'', PORT = None\<rparr>"
    and prod: "\<not> isDev \<lparr>NODE_ENV = None, PORT = None\<rparr>"
    by (simp_all add: isDev_def)
  from cleanup_once_per_config [of "\<lparr>NODE_ENV = Some ''development'', PORT = None\<rparr>" None "[''app'']"]
       cleanup_once_per_config [of "\<lparr>NODE_ENV = None, PORT = None\<rparr>" None "[''app'']"]
       dev prod
  show ?thesis by (simp add: resolve_def)
qed

text \<open>
  Claim C9. In every mode the first plugin of the browser configuration is the manifest
  plugin, writing to disk at \<^verbatim>\<open>http/dist/manifest.json\<close> below \<^verbatim>\<open>__dirname\<close>, and no other
  exported configuration has a manifest plugin. The \<^verbatim>\<open>compile\<close> hook of every exported
  configuration leaves that path as it found it, also when the hook ends with an
  exception, and a cleanup of any directory leaves its \<^verbatim>\<open>manifest.json\<close> as it found it.
\<close>

theorem manifest_fixed_and_preserved:
  "hd (plugins (browser_config (module_exports e commit dirname)))
     = ManifestPlugin True (resolve dirname [''http'', ''dist'', ''manifest.json'']) \<and>
   concat (map manifest_paths (configs (module_exports e commit dirname)))
     = [resolve dirname [''http'', ''dist'', ''manifest.json'']] \<and>
   (\<forall>c \<in> set (configs (module_exports e commit dirname)).
      map_of (snd (compile_hook c fs)) (resolve dirname [''http'', ''dist'', ''manifest.json''])
        = map_of fs (resolve dirname [''http'', ''dist'', ''manifest.json''])) \<and>
   map_of (snd (cleanBuild fs d)) (resolve d [''manifest.json''])
     = map_of fs (resolve d [''manifest.json''])"
proof -
  let ?m = "resolve dirname [''http'', ''dist'', ''manifest.json'']"
  have first: "hd (plugins (browser_config (module_exports e commit dirname)))
     = ManifestPlugin True ?m"
    by (simp add: config_defs Let_def)
  have one: "concat (map manifest_paths (configs (module_exports e commit dirname))) = [?m]"
    by (simp add: config_defs manifest_paths_def Let_def)
  have name: "last ?m = ''manifest.json''"
    by (simp add: resolve_def)
  have hook: "map_of (snd (compile_hook c fs)) ?m = map_of fs ?m" for c
    unfolding compile_hook_def by (rule run_taps_keeps) (simp add: name)
  have direct: "map_of (snd (cleanBuild fs d)) (resolve d [''manifest.json''])
     = map_of fs (resolve d [''manifest.json''])"
    by (rule cleanBuild_keeps) (simp add: resolve_def)
  from first one hook direct show ?thesis by simp
qed

theorem manifest_fixed_and_preserved_witness:
  "manifest_paths (browser_config (module_exports \<lparr>NODE_ENV = None, PORT = None\<rparr> None [''app'']))
     = [[''app'', ''http'', ''dist'', ''manifest.json'']] \<and>
   map_of (snd (compile_hook
        (nodeCfg (push (baseConfig \<lparr>NODE_ENV = None, PORT = None\<rparr> None [''app''])
                    [CleanBuildPlugin]) [''app''])
        [([''app'', ''http'', ''dist''], Dir),
         ([''app'', ''http'', ''dist'', ''App.js''], File),
         ([''app'', ''http'', ''dist'', ''manifest.json''], File)]))
     [''app'', ''http'', ''dist'', ''manifest.json''] = Some File"
proof -
  let ?e = "\<lparr>NODE_ENV = None, PORT = None\<rparr>"
  let ?c = "nodeCfg (push (baseConfig ?e None [''app'']) [CleanBuildPlugin]) [''app'']"
  let ?fs = "[([''app'', ''http'', ''dist''], Dir),
         ([''app'', ''http'', ''dist'', ''App.js''], File),
         ([''app'', ''http'', ''dist'', ''manifest.json''], File)]"
  have prod: "\<not> isDev ?e"
    by (simp add: isDev_def)
  have mem: "?c \<in> set (configs (module_exports ?e None [''app'']))"
    by (simp add: exports_production [OF prod] configs_def)
  have paths: "manifest_paths (browser_config (module_exports ?e None [''app'']))
     = [[''app'', ''http'', ''dist'', ''manifest.json'']]"
    by (simp add: exports_production [OF prod] browser_config_def manifest_paths_def
        push_def baseConfig_def resolve_def)
  from manifest_fixed_and_preserved [of ?e None "[''app'']" ?fs] mem
  have "map_of (snd (compile_hook ?c ?fs)) (resolve [''app''] [''http'', ''dist'', ''manifest.json''])
        = map_of ?fs (resolve [''app''] [''http'', ''dist'', ''manifest.json''])"
    by blast
  then have "map_of (snd (compile_hook ?c ?fs)) [''app'', ''http'', ''dist'', ''manifest.json''] = Some File"
    by (simp add: resolve_def)
  with paths show ?thesis by simp
qed

subsection \<open>The revision identifier\<close>

lemma last_dropWhile:
  "dropWhile P xs \<noteq> [] \<Longrightarrow> last (dropWhile P xs) = last xs"
  by (induction xs) (auto split: if_splits)

lemma trim_split:
  "\<exists>l r. s = l @ trim s @ r \<and> list_all is_js_whitespace l \<and> list_all is_js_whitespace r"
proof -
  let ?P = "is_js_whitespace"
  let ?m = "dropWhile ?P s"
  let ?l = "takeWhile ?P s"
  let ?r = "rev (takeWhile ?P (rev ?m))"
  have "rev (takeWhile ?P (rev ?m) @ dropWhile ?P (rev ?m)) = rev (rev ?m)"
    by (simp only: takeWhile_dropWhile_id)
  then have m: "?m = trim s @ ?r"
    by (simp only: rev_append rev_rev_ident trim_def)
  have "s = ?l @ ?m"
    by simp
  with m have "s = ?l @ trim s @ ?r"
    by simp
  moreover have "list_all ?P ?l"
    by (auto simp: list_all_iff dest: set_takeWhileD)
  moreover have "list_all ?P ?r"
    by (auto simp: list_all_iff dest: set_takeWhileD)
  ultimately show ?thesis by blast
qed

lemma trim_ends:
  assumes "trim s \<noteq> []"
  shows "\<not> is_js_whitespace (hd (trim s)) \<and> \<not> is_js_whitespace (last (trim s))"
proof -
  let ?P = "is_js_whitespace"
  let ?m = "dropWhile ?P s"
  let ?t = "dropWhile ?P (rev ?m)"
  have t: "?t \<noteq> []"
    using assms unfolding trim_def rev_is_Nil_conv .
  have m: "?m \<noteq> []"
  proof
    assume "?m = []"
    then have "trim s = []" by (simp only: trim_def rev.simps dropWhile.simps)
    with assms show False by simp
  qed
  have "last (trim s) = hd ?t"
    using t by (simp add: trim_def last_rev)
  moreover have "\<not> ?P (hd ?t)"
    using t by (rule hd_dropWhile)
  moreover have "hd (trim s) = last ?t"
    using t by (simp add: trim_def hd_rev)
  moreover have "last ?t = last (rev ?m)"
    using t by (rule last_dropWhile)
  moreover have "last (rev ?m) = hd ?m"
    using m by (simp add: last_rev)
  moreover have "\<not> ?P (hd ?m)"
    using m by (rule hd_dropWhile)
  ultimately show ?thesis by simp
qed

text \<open>
  Claim C4. When the child process throws, \<open>commitHash\<close> is \<^verbatim>\<open>null\<close>, evaluating the
  module ends without an exception, and the result is the one of a resolution with a
  \<^verbatim>\<open>null\<close> revision, whatever the exception was. When it returns, \<open>commitHash\<close> is its
  output trimmed: the output is the trimmed text between two runs of white space, and the
  trimmed text, if not empty, neither starts nor ends with white space. Every exported
  configuration defines the revision constant from that value.
\<close>

theorem revision_lookup:
  "commitHash (Inl err) = None \<and>
   webpack_config e (Inl err) dirname = Inr (module_exports e None dirname) \<and>
   (\<forall>c \<in> set (configs (module_exports e None dirname)). revisions c = [None]) \<and>
   commitHash (Inr out) = Some (trim out) \<and>
   webpack_config e (Inr out) dirname = Inr (module_exports e (Some (trim out)) dirname) \<and>
   (\<forall>c \<in> set (configs (module_exports e (Some (trim out)) dirname)).
      revisions c = [Some (trim out)]) \<and>
   (\<exists>l r. out = l @ trim out @ r \<and>
          list_all is_js_whitespace l \<and> list_all is_js_whitespace r) \<and>
   (trim out \<noteq> [] \<longrightarrow>
      \<not> is_js_whitespace (hd (trim out)) \<and> \<not> is_js_whitespace (last (trim out)))"
proof -
  have rev: "\<forall>c \<in> set (configs (module_exports e h dirname)). revisions c = [h]" for h
    by (simp add: config_defs revisions_def Let_def)
  show ?thesis
    using rev [of None] rev [of "Some (trim out)"] trim_split [of out] trim_ends [of out]
    by (simp add: commitHash_def webpack_config_def)
qed

theorem revision_lookup_witness:
  "webpack_config \<lparr>NODE_ENV = None, PORT = None\<rparr> (Inl (ExecFailed ''git: not found'')) [''app'']
     = Inr (module_exports \<lparr>NODE_ENV = None, PORT = None\<rparr> None [''app'']) \<and>
   commitHash (Inr [32, 97, 49, 10]) = Some [97, 49]"
proof -
  have t: "trim [32, 97, 49, 10] = [97, 49]"
    by (simp add: trim_def is_js_whitespace_def)
  from revision_lookup [of "ExecFailed ''git: not found''" "\<lparr>NODE_ENV = None, PORT = None\<rparr>"
      "[''app'']" "[32, 97, 49, 10]"]
  show ?thesis by (simp add: t)
qed

end
